theory Spec2Isabelle
  imports Complex_Main
begin

section \<open>Data model (types.ts)\<close>

datatype PathState = Idle | Computing | Following | Blocked | Completed | Failed | Paused

datatype PathStatus =
  Success | ClosestNoPath | ClosestOutOfRange | FailStartNotEmpty | FailFinishNotEmpty | NoPath

text \<open>
  \<open>Vector3\<close>, \<open>Enum.PathWaypointAction\<close>, \<open>PathWaypoint\<close> and \<open>Humanoid\<close> belong to the host
  engine, not to the repository. A vector is three numbers (numbers are taken as reals),
  \<open>sub\<close> is componentwise and \<open>Magnitude\<close> is the Euclidean norm. A humanoid is known by
  its identity only; the commands it receives are recorded in the trace.
\<close>

record Vector3 =
  vx :: real
  vy :: real
  vz :: real

definition sub :: "Vector3 \<Rightarrow> Vector3 \<Rightarrow> Vector3" where
  "sub a b = \<lparr>vx = vx a - vx b, vy = vy a - vy b, vz = vz a - vz b\<rparr>"

definition Magnitude :: "Vector3 \<Rightarrow> real" where
  "Magnitude v = sqrt (vx v * vx v + vy v * vy v + vz v * vz v)"

datatype PathWaypointAction = Walk | Jump | Custom

record Waypoint =
  position :: Vector3
  action :: PathWaypointAction

record PathWaypoint =
  Position :: Vector3
  Action :: PathWaypointAction
  Label :: string

type_synonym Humanoid = nat

text \<open>What a \<open>throw\<close> carries: \<open>computeAsync\<close> is the only place that raises.\<close>

datatype error = CannotComputePath PathState

text \<open>The diagnostics written with \<open>warn\<close>, by the state they quote.\<close>

datatype diagnostic =
    InvalidTransition PathState PathState
  | CannotStartFollowing PathState
  | RetryFailed error

text \<open>
  The trace of everything a controller does to the outside: diagnostics, the lifecycle
  callbacks of an observing caller, commands to the mover, calls of the search service and
  suspensions (\<open>task.wait\<close>).
\<close>

datatype event =
    Warn diagnostic
  | StateChanged PathState PathState
  | WaypointReached Waypoint nat
  | PathCompleted
  | PathFailed PathStatus
  | PathBlocked
  | HumanoidJump Humanoid
  | HumanoidMoveTo Humanoid Vector3
  | SearchComputeAsync Vector3 Vector3
  | TaskWait real

section \<open>The finite state machine (state.ts)\<close>

text \<open>
  \<open>PathFSM\<close> has one mutable field, \<open>currentState\<close>. The \<open>events\<close> object is read-only and
  holds closures over the objects that own the machine, so it is passed to every operation
  instead of being stored: a callback is a transformer of the whole state \<open>'s\<close> of the
  object the machine is part of, and an absent callback is \<open>None\<close>.
\<close>

record PathFSM =
  currentState :: PathState
  trace :: "event list"

record 's PathFSMEvents =
  onStateChanged :: "(PathState \<Rightarrow> PathState \<Rightarrow> 's \<Rightarrow> 's) option"
  onWaypointReached :: "(Waypoint \<Rightarrow> nat \<Rightarrow> 's \<Rightarrow> 's) option"
  onPathCompleted :: "('s \<Rightarrow> 's) option"
  onPathFailed :: "(PathStatus \<Rightarrow> 's \<Rightarrow> 's) option"
  onPathBlocked :: "('s \<Rightarrow> 's) option"

definition emit :: "event \<Rightarrow> 'z PathFSM_scheme \<Rightarrow> 'z PathFSM_scheme" where
  "emit e s = s\<lparr>trace := trace s @ [e]\<rparr>"

definition warn :: "diagnostic \<Rightarrow> 'z PathFSM_scheme \<Rightarrow> 'z PathFSM_scheme" where
  "warn d s = emit (Warn d) s"

text \<open>The map built in the constructor, in the order of the source.\<close>

definition validTransitions :: "(PathState \<times> PathState list) list" where
  "validTransitions =
    [(Idle, [Computing]),
     (Computing, [Following, Failed]),
     (Following, [Blocked, Completed, Failed, Paused, Computing]),
     (Blocked, [Computing, Failed, Following]),
     (Paused, [Following, Computing, Failed]),
     (Completed, [Idle, Computing]),
     (Failed, [Idle, Computing])]"

definition getCurrentState :: "'z PathFSM_scheme \<Rightarrow> PathState" where
  "getCurrentState s = currentState s"

definition canTransitionTo :: "PathState \<Rightarrow> 'z PathFSM_scheme \<Rightarrow> bool" where
  "canTransitionTo newState s =
    (case map_of validTransitions (currentState s) of
       Some validStates \<Rightarrow> newState \<in> set validStates
     | None \<Rightarrow> False)"

definition transitionTo ::
  "'z PathFSM_scheme PathFSMEvents \<Rightarrow> PathState \<Rightarrow> 'z PathFSM_scheme \<Rightarrow> bool \<times> 'z PathFSM_scheme"
where
  "transitionTo ev newState s =
    (if \<not> canTransitionTo newState s
     then (False, warn (InvalidTransition (currentState s) newState) s)
     else
       let oldState = currentState s;
           s1 = s\<lparr>currentState := newState\<rparr>
       in (True, case onStateChanged ev of
                   Some cb \<Rightarrow> cb oldState newState s1
                 | None \<Rightarrow> s1))"

definition triggerWaypointReached ::
  "'z PathFSM_scheme PathFSMEvents \<Rightarrow> Waypoint \<Rightarrow> nat \<Rightarrow> 'z PathFSM_scheme \<Rightarrow> 'z PathFSM_scheme"
where
  "triggerWaypointReached ev waypoint index s =
    (case onWaypointReached ev of Some cb \<Rightarrow> cb waypoint index s | None \<Rightarrow> s)"

definition triggerPathCompleted ::
  "'z PathFSM_scheme PathFSMEvents \<Rightarrow> 'z PathFSM_scheme \<Rightarrow> 'z PathFSM_scheme"
where
  "triggerPathCompleted ev s =
    (let s1 = snd (transitionTo ev Completed s)
     in case onPathCompleted ev of Some cb \<Rightarrow> cb s1 | None \<Rightarrow> s1)"

definition triggerPathFailed ::
  "'z PathFSM_scheme PathFSMEvents \<Rightarrow> PathStatus \<Rightarrow> 'z PathFSM_scheme \<Rightarrow> 'z PathFSM_scheme"
where
  "triggerPathFailed ev reason s =
    (let s1 = snd (transitionTo ev Failed s)
     in case onPathFailed ev of Some cb \<Rightarrow> cb reason s1 | None \<Rightarrow> s1)"

definition triggerPathBlocked ::
  "'z PathFSM_scheme PathFSMEvents \<Rightarrow> 'z PathFSM_scheme \<Rightarrow> 'z PathFSM_scheme"
where
  "triggerPathBlocked ev s =
    (let s1 = snd (transitionTo ev Blocked s)
     in case onPathBlocked ev of Some cb \<Rightarrow> cb s1 | None \<Rightarrow> s1)"

definition reset :: "'z PathFSM_scheme \<Rightarrow> 'z PathFSM_scheme" where
  "reset s = s\<lparr>currentState := Idle\<rparr>"

definition getValidTransitions :: "'z PathFSM_scheme \<Rightarrow> PathState list" where
  "getValidTransitions s =
    (case map_of validTransitions (currentState s) of Some vs \<Rightarrow> vs | None \<Rightarrow> [])"

definition isTerminalState :: "'z PathFSM_scheme \<Rightarrow> bool" where
  "isTerminalState s = (currentState s = Completed \<or> currentState s = Failed)"

definition isActiveState :: "'z PathFSM_scheme \<Rightarrow> bool" where
  "isActiveState s = (currentState s = Computing \<or> currentState s = Following)"

text \<open>
  A caller that only observes: each callback it registers records the notification in the
  trace and touches nothing else. \<open>registered\<close> says which of the five it supplied; the
  default \<open>{}\<close> of the constructors is \<open>noCallbacks\<close>.
\<close>

record registered =
  regStateChanged :: bool
  regWaypointReached :: bool
  regPathCompleted :: bool
  regPathFailed :: bool
  regPathBlocked :: bool

definition observer :: "registered \<Rightarrow> 'z PathFSM_scheme PathFSMEvents" where
  "observer r =
    \<lparr>onStateChanged = (if regStateChanged r then Some (\<lambda>old new. emit (StateChanged old new)) else None),
     onWaypointReached = (if regWaypointReached r then Some (\<lambda>w i. emit (WaypointReached w i)) else None),
     onPathCompleted = (if regPathCompleted r then Some (emit PathCompleted) else None),
     onPathFailed = (if regPathFailed r then Some (\<lambda>reason. emit (PathFailed reason)) else None),
     onPathBlocked = (if regPathBlocked r then Some (emit PathBlocked) else None)\<rparr>"

definition allCallbacks :: registered where
  "allCallbacks = \<lparr>regStateChanged = True, regWaypointReached = True, regPathCompleted = True,
     regPathFailed = True, regPathBlocked = True\<rparr>"

definition noCallbacks :: registered where
  "noCallbacks = \<lparr>regStateChanged = False, regWaypointReached = False, regPathCompleted = False,
     regPathFailed = False, regPathBlocked = False\<rparr>"

text \<open>
  The transition table as the specification draws it (section 4.1), one set of allowed
  targets per source state. It is compared with the map of the constructor below.
\<close>

fun specTable :: "PathState \<Rightarrow> PathState set" where
  "specTable Idle = {Computing}"
| "specTable Computing = {Following, Failed}"
| "specTable Following = {Blocked, Completed, Failed, Paused, Computing}"
| "specTable Blocked = {Computing, Failed, Following}"
| "specTable Paused = {Following, Computing, Failed}"
| "specTable Completed = {Idle, Computing}"
| "specTable Failed = {Idle, Computing}"

section \<open>The path controller (path.ts)\<close>

text \<open>
  The controller owns its machine, so \<open>Path\<close> extends the record of the machine. The search
  service is outside the repository: \<open>robloxStatus\<close> and \<open>robloxWaypoints\<close> are what its
  handle currently reports (\<open>Status\<close>, \<open>GetWaypoints()\<close>), and the answer of each
  \<open>ComputeAsync\<close> call is an input of the operation that makes the call.

  \<open>RunService.Heartbeat\<close> is a store of live subscriptions: \<open>heartbeat\<close> maps the identity of
  each connection to what its closure captured, \<open>connections\<close> counts the identities handed
  out, and the field \<open>followConnection\<close> points at one of them or is undefined. The path
  options are only handed to the search service and are left out.
\<close>

record SearchResult =
  srStatus :: PathStatus
  srWaypoints :: "PathWaypoint list"

record FollowContext =
  fcHumanoid :: Humanoid
  fcDistance :: real
  fcWaypoint :: Waypoint

record Path = PathFSM +
  robloxStatus :: PathStatus
  robloxWaypoints :: "PathWaypoint list"
  robloxDestroyed :: bool
  currentWaypoints :: "Waypoint list"
  currentWaypointIndex :: nat
  followConnection :: "nat option"
  pathBlockedConnection :: bool
  heartbeat :: "(nat \<times> FollowContext) list"
  connections :: nat

definition getState :: "'z Path_scheme \<Rightarrow> PathState" where
  "getState s = getCurrentState s"

definition Disconnect :: "nat \<Rightarrow> 'z Path_scheme \<Rightarrow> 'z Path_scheme" where
  "Disconnect c s = s\<lparr>heartbeat := filter (\<lambda>entry. fst entry \<noteq> c) (heartbeat s)\<rparr>"

definition HeartbeatConnect :: "FollowContext \<Rightarrow> 'z Path_scheme \<Rightarrow> nat \<times> 'z Path_scheme" where
  "HeartbeatConnect ctx s =
    (connections s,
     s\<lparr>heartbeat := heartbeat s @ [(connections s, ctx)], connections := connections s + 1\<rparr>)"

definition ComputeAsync :: "Vector3 \<Rightarrow> Vector3 \<Rightarrow> SearchResult \<Rightarrow> 'z Path_scheme \<Rightarrow> 'z Path_scheme" where
  "ComputeAsync start finish res s =
    (emit (SearchComputeAsync start finish) s)
      \<lparr>robloxStatus := srStatus res, robloxWaypoints := srWaypoints res\<rparr>"

definition cleanupConnections :: "'z Path_scheme \<Rightarrow> 'z Path_scheme" where
  "cleanupConnections s =
    (case followConnection s of
       Some c \<Rightarrow> (Disconnect c s)\<lparr>followConnection := None\<rparr>
     | None \<Rightarrow> s)"

definition extractWaypoints :: "'z Path_scheme \<Rightarrow> 'z Path_scheme" where
  "extractWaypoints s =
    s\<lparr>currentWaypoints := map (\<lambda>wp. \<lparr>position = Position wp, action = Action wp\<rparr>) (robloxWaypoints s),
      currentWaypointIndex := 0\<rparr>"

definition computeAsync ::
  "'z Path_scheme PathFSMEvents \<Rightarrow> Vector3 \<Rightarrow> Vector3 \<Rightarrow> SearchResult \<Rightarrow> 'z Path_scheme
     \<Rightarrow> (error + PathStatus) \<times> 'z Path_scheme"
where
  "computeAsync ev start finish res s =
    (case transitionTo ev Computing s of
       (False, s1) \<Rightarrow> (Inl (CannotComputePath (getState s1)), s1)
     | (True, s1) \<Rightarrow>
         let s2 = ComputeAsync start finish res s1;
             status = robloxStatus s2;
             s3 = (if status = Success then extractWaypoints s2
                   else triggerPathFailed ev status s2)
         in (Inr status, s3))"

definition followNextWaypoint ::
  "'z Path_scheme PathFSMEvents \<Rightarrow> Humanoid \<Rightarrow> real \<Rightarrow> 'z Path_scheme \<Rightarrow> 'z Path_scheme"
where
  "followNextWaypoint ev humanoid waypointReachedDistance s =
    (if currentWaypointIndex s \<ge> length (currentWaypoints s)
     then cleanupConnections (triggerPathCompleted ev s)
     else
       let waypoint = currentWaypoints s ! currentWaypointIndex s;
           s1 = (if action waypoint = Jump then emit (HumanoidJump humanoid) s else s);
           s2 = emit (HumanoidMoveTo humanoid (position waypoint)) s1;
           (c, s3) = HeartbeatConnect
              \<lparr>fcHumanoid = humanoid, fcDistance = waypointReachedDistance, fcWaypoint = waypoint\<rparr> s2
       in s3\<lparr>followConnection := Some c\<rparr>)"

text \<open>
  One firing of the heartbeat handler of connection \<open>c\<close>; \<open>rootPart\<close> is the position of the
  humanoid's root part at that tick, \<open>None\<close> when it has none. A connection that is no
  longer live does not fire.
\<close>

definition heartbeatFire ::
  "'z Path_scheme PathFSMEvents \<Rightarrow> nat \<Rightarrow> Vector3 option \<Rightarrow> 'z Path_scheme \<Rightarrow> 'z Path_scheme"
where
  "heartbeatFire ev c rootPart s =
    (case map_of (heartbeat s) c of
       None \<Rightarrow> s
     | Some ctx \<Rightarrow>
        (case rootPart of
           None \<Rightarrow> s
         | Some p \<Rightarrow>
             let distance = Magnitude (sub p (position (fcWaypoint ctx)))
             in if distance \<le> fcDistance ctx
                then
                  let s1 = (case followConnection s of
                              Some fc \<Rightarrow> (Disconnect fc s)\<lparr>followConnection := None\<rparr>
                            | None \<Rightarrow> s);
                      s2 = triggerWaypointReached ev (fcWaypoint ctx) (currentWaypointIndex s1) s1;
                      s3 = s2\<lparr>currentWaypointIndex := currentWaypointIndex s2 + 1\<rparr>
                  in if getState s3 = Following
                     then followNextWaypoint ev (fcHumanoid ctx) (fcDistance ctx) s3
                     else s3
                else s))"

definition startFollowing ::
  "'z Path_scheme PathFSMEvents \<Rightarrow> Humanoid \<Rightarrow> real \<Rightarrow> 'z Path_scheme \<Rightarrow> 'z Path_scheme"
where
  "startFollowing ev humanoid waypointReachedDistance s =
    (if length (currentWaypoints s) = 0
     then triggerPathFailed ev NoPath s
     else
       case transitionTo ev Following s of
         (False, s1) \<Rightarrow> warn (CannotStartFollowing (getState s1)) s1
       | (True, s1) \<Rightarrow>
           followNextWaypoint ev humanoid waypointReachedDistance (cleanupConnections s1))"

definition pause :: "'z Path_scheme PathFSMEvents \<Rightarrow> 'z Path_scheme \<Rightarrow> 'z Path_scheme" where
  "pause ev s =
    (case transitionTo ev Paused s of
       (True, s1) \<Rightarrow> cleanupConnections s1
     | (False, s1) \<Rightarrow> s1)"

definition resume ::
  "'z Path_scheme PathFSMEvents \<Rightarrow> Humanoid \<Rightarrow> real \<Rightarrow> 'z Path_scheme \<Rightarrow> 'z Path_scheme"
where
  "resume ev humanoid waypointReachedDistance s =
    (case transitionTo ev Following s of
       (True, s1) \<Rightarrow> followNextWaypoint ev humanoid waypointReachedDistance s1
     | (False, s1) \<Rightarrow> s1)"

definition stop :: "'z Path_scheme PathFSMEvents \<Rightarrow> 'z Path_scheme \<Rightarrow> 'z Path_scheme" where
  "stop ev s =
    (let s1 = cleanupConnections s;
         s2 = snd (transitionTo ev Idle s1)
     in s2\<lparr>currentWaypointIndex := 0\<rparr>)"

text \<open>The listener installed by \<open>setupPathBlockedListener\<close>, run when the search handle signals.\<close>

definition pathBlockedListener :: "'z Path_scheme PathFSMEvents \<Rightarrow> 'z Path_scheme \<Rightarrow> 'z Path_scheme" where
  "pathBlockedListener ev s =
    (if pathBlockedConnection s \<and> getState s = Following then triggerPathBlocked ev s else s)"

definition getWaypoints :: "'z Path_scheme \<Rightarrow> Waypoint list option" where
  "getWaypoints s = (if robloxStatus s \<noteq> Success then None else Some (currentWaypoints s))"

text \<open>The \<open>for\<close> loop of \<open>getDistance\<close>, from index \<open>i\<close> with the running total.\<close>

function getDistance_loop :: "Waypoint list \<Rightarrow> nat \<Rightarrow> real \<Rightarrow> real" where
  "getDistance_loop wps i totalDistance =
    (if int i < int (length wps) - 1
     then getDistance_loop wps (i + 1)
            (totalDistance + Magnitude (sub (position (wps ! i)) (position (wps ! (i + 1)))))
     else totalDistance)"
  by pat_completeness auto
termination
  by (relation "measure (\<lambda>(wps, i, t). length wps - i)") auto

definition getDistance :: "'z Path_scheme \<Rightarrow> real" where
  "getDistance s =
    (if robloxStatus s \<noteq> Success \<or> length (currentWaypoints s) = 0 then 0
     else getDistance_loop (currentWaypoints s) 0 0)"

definition getStatus :: "'z Path_scheme \<Rightarrow> PathStatus" where
  "getStatus s = robloxStatus s"

definition isSuccess :: "'z Path_scheme \<Rightarrow> bool" where
  "isSuccess s = (robloxStatus s = Success)"

definition getCurrentWaypointIndex :: "'z Path_scheme \<Rightarrow> nat" where
  "getCurrentWaypointIndex s = currentWaypointIndex s"

definition getWaypointCount :: "'z Path_scheme \<Rightarrow> nat" where
  "getWaypointCount s = length (currentWaypoints s)"

definition destroy :: "'z Path_scheme PathFSMEvents \<Rightarrow> 'z Path_scheme \<Rightarrow> 'z Path_scheme" where
  "destroy ev s =
    (let s1 = stop ev s;
         s2 = (if pathBlockedConnection s1 then s1\<lparr>pathBlockedConnection := False\<rparr> else s1)
     in s2\<lparr>robloxDestroyed := True\<rparr>)"

text \<open>
  A freshly constructed controller. What a new search handle reports as its status is the
  engine's business and is a parameter.
\<close>

definition newPath :: "PathStatus \<Rightarrow> Path" where
  "newPath initialStatus =
    \<lparr>currentState = Idle, trace = [],
     robloxStatus = initialStatus, robloxWaypoints = [], robloxDestroyed = False,
     currentWaypoints = [], currentWaypointIndex = 0, followConnection = None,
     pathBlockedConnection = True, heartbeat = [], connections = 0\<rparr>"

text \<open>
  The sum of the Euclidean distances between consecutive points, as the specification
  words the result of \<open>getDistance\<close>.
\<close>

definition euclidean :: "Vector3 \<Rightarrow> Vector3 \<Rightarrow> real" where
  "euclidean p q = sqrt ((vx p - vx q)\<^sup>2 + (vy p - vy q)\<^sup>2 + (vz p - vz q)\<^sup>2)"

fun consecutiveDistances :: "Vector3 list \<Rightarrow> real" where
  "consecutiveDistances (p # q # rest) = euclidean p q + consecutiveDistances (q # rest)"
| "consecutiveDistances _ = 0"

section \<open>The retrying controller (smartpath.ts)\<close>

text \<open>
  \<open>SmartPath\<close> extends \<open>Path\<close>. Its \<open>async\<close> handlers run as far as their first suspension
  inside the callback that starts them and continue after the wait, when the scheduler
  resumes them: a handler is therefore two operations, the part up to \<open>task.wait\<close>, which
  leaves a task in \<open>suspended\<close>, and the part after it, which takes the task out again.
  Awaiting \<open>computeAsync\<close> does not suspend, since its promise is resolved by the time it is
  returned.
\<close>

record SmartPathOptions =
  optMaxRetries :: "int option"
  optRetryDelay :: "real option"
  optUseExponentialBackoff :: "bool option"
  optShouldRetry :: "(PathStatus \<Rightarrow> nat \<Rightarrow> bool) option"

record RequiredSmartPathOptions =
  maxRetries :: int
  retryDelay :: real
  useExponentialBackoff :: bool
  shouldRetry :: "PathStatus \<Rightarrow> nat \<Rightarrow> bool"

datatype RetryTask = BlockedRecovery | FailureRecovery

record SmartPath = Path +
  retryAttempts :: nat
  lastStart :: "Vector3 option"
  lastFinish :: "Vector3 option"
  currentHumanoid :: "Humanoid option"
  currentWaypointDistance :: "real option"
  suspended :: "RetryTask list"

definition defaultShouldRetry :: "int \<Rightarrow> PathStatus \<Rightarrow> nat \<Rightarrow> bool" where
  "defaultShouldRetry maxRetriesOfThis reason attempt =
    (if reason = NoPath then False
     else if reason = ClosestOutOfRange then False
     else int attempt < maxRetriesOfThis)"

definition normalizeSmartOptions :: "SmartPathOptions \<Rightarrow> RequiredSmartPathOptions" where
  "normalizeSmartOptions options =
    (let m = (case optMaxRetries options of Some v \<Rightarrow> v | None \<Rightarrow> 3)
     in \<lparr>maxRetries = m,
         retryDelay = (case optRetryDelay options of Some v \<Rightarrow> v | None \<Rightarrow> 1),
         useExponentialBackoff = (case optUseExponentialBackoff options of Some v \<Rightarrow> v | None \<Rightarrow> True),
         shouldRetry = (case optShouldRetry options of Some f \<Rightarrow> f | None \<Rightarrow> defaultShouldRetry m)\<rparr>)"

definition shouldAttemptRetry :: "RequiredSmartPathOptions \<Rightarrow> 'z SmartPath_scheme \<Rightarrow> bool" where
  "shouldAttemptRetry smartOptions s = (int (retryAttempts s) < maxRetries smartOptions)"

text \<open>The delay \<open>waitForRetry\<close> hands to \<open>task.wait\<close>; \<open>math.pow\<close> takes any integer exponent.\<close>

definition retryDelayOf :: "RequiredSmartPathOptions \<Rightarrow> 'z SmartPath_scheme \<Rightarrow> real" where
  "retryDelayOf smartOptions s =
    (let delay = retryDelay smartOptions
     in if useExponentialBackoff smartOptions
        then delay * (2 powi (int (retryAttempts s) - 1))
        else delay)"

definition waitForRetry ::
  "RequiredSmartPathOptions \<Rightarrow> RetryTask \<Rightarrow> 'z SmartPath_scheme \<Rightarrow> 'z SmartPath_scheme"
where
  "waitForRetry smartOptions task s =
    (emit (TaskWait (retryDelayOf smartOptions s)) s)\<lparr>suspended := suspended s @ [task]\<rparr>"

definition handleBlocked :: "RequiredSmartPathOptions \<Rightarrow> 'z SmartPath_scheme \<Rightarrow> 'z SmartPath_scheme" where
  "handleBlocked smartOptions s =
    (if \<not> shouldAttemptRetry smartOptions s then s
     else waitForRetry smartOptions BlockedRecovery (s\<lparr>retryAttempts := retryAttempts s + 1\<rparr>))"

definition handleFailure ::
  "RequiredSmartPathOptions \<Rightarrow> PathStatus \<Rightarrow> 'z SmartPath_scheme \<Rightarrow> 'z SmartPath_scheme"
where
  "handleFailure smartOptions reason s =
    (if \<not> shouldRetry smartOptions reason (retryAttempts s) then s
     else if \<not> shouldAttemptRetry smartOptions s then s
     else waitForRetry smartOptions FailureRecovery (s\<lparr>retryAttempts := retryAttempts s + 1\<rparr>))"

definition enhancedEvents ::
  "RequiredSmartPathOptions \<Rightarrow> 'z SmartPath_scheme PathFSMEvents \<Rightarrow> 'z SmartPath_scheme PathFSMEvents"
where
  "enhancedEvents smartOptions fsmEvents =
    fsmEvents
      \<lparr>onPathBlocked := Some (\<lambda>s.
          handleBlocked smartOptions
            (case onPathBlocked fsmEvents of Some cb \<Rightarrow> cb s | None \<Rightarrow> s)),
       onPathFailed := Some (\<lambda>reason s.
          handleFailure smartOptions reason
            (case onPathFailed fsmEvents of Some cb \<Rightarrow> cb reason s | None \<Rightarrow> s))\<rparr>"

definition SmartPath_computeAsync ::
  "RequiredSmartPathOptions \<Rightarrow> 'z SmartPath_scheme PathFSMEvents \<Rightarrow> Vector3 \<Rightarrow> Vector3 \<Rightarrow> SearchResult
     \<Rightarrow> 'z SmartPath_scheme \<Rightarrow> (error + PathStatus) \<times> 'z SmartPath_scheme"
where
  "SmartPath_computeAsync smartOptions fsmEvents start finish res s =
    computeAsync (enhancedEvents smartOptions fsmEvents) start finish res
      (s\<lparr>lastStart := Some start, lastFinish := Some finish, retryAttempts := 0\<rparr>)"

definition SmartPath_startFollowing ::
  "RequiredSmartPathOptions \<Rightarrow> 'z SmartPath_scheme PathFSMEvents \<Rightarrow> Humanoid \<Rightarrow> real
     \<Rightarrow> 'z SmartPath_scheme \<Rightarrow> 'z SmartPath_scheme"
where
  "SmartPath_startFollowing smartOptions fsmEvents humanoid waypointReachedDistance s =
    startFollowing (enhancedEvents smartOptions fsmEvents) humanoid waypointReachedDistance
      (s\<lparr>currentHumanoid := Some humanoid, currentWaypointDistance := Some waypointReachedDistance\<rparr>)"

text \<open>
  \<open>handleBlocked\<close> after its wait; \<open>res\<close> is what the search service answers if the
  recomputation gets as far as calling it. An absent distance takes the default 5 of
  \<open>startFollowing\<close>.
\<close>

definition handleBlocked_resumed ::
  "RequiredSmartPathOptions \<Rightarrow> 'z SmartPath_scheme PathFSMEvents \<Rightarrow> SearchResult
     \<Rightarrow> 'z SmartPath_scheme \<Rightarrow> 'z SmartPath_scheme"
where
  "handleBlocked_resumed smartOptions fsmEvents res s =
    (case (lastStart s, lastFinish s) of
       (Some a, Some b) \<Rightarrow>
         (case SmartPath_computeAsync smartOptions fsmEvents a b res s of
            (Inl err, s1) \<Rightarrow> warn (RetryFailed err) s1
          | (Inr status, s1) \<Rightarrow>
              (case currentHumanoid s1 of
                 Some h \<Rightarrow>
                   if status = Success
                   then SmartPath_startFollowing smartOptions fsmEvents h
                          (case currentWaypointDistance s1 of Some d \<Rightarrow> d | None \<Rightarrow> 5) s1
                   else s1
               | None \<Rightarrow> s1))
     | _ \<Rightarrow> s)"

definition handleFailure_resumed ::
  "RequiredSmartPathOptions \<Rightarrow> 'z SmartPath_scheme PathFSMEvents \<Rightarrow> SearchResult
     \<Rightarrow> 'z SmartPath_scheme \<Rightarrow> 'z SmartPath_scheme"
where
  "handleFailure_resumed smartOptions fsmEvents res s =
    (case (lastStart s, lastFinish s) of
       (Some a, Some b) \<Rightarrow>
         (case SmartPath_computeAsync smartOptions fsmEvents a b res s of
            (Inl err, s1) \<Rightarrow> warn (RetryFailed err) s1
          | (Inr status, s1) \<Rightarrow> s1)
     | _ \<Rightarrow> s)"

text \<open>The scheduler resumes the suspended handler at position \<open>i\<close>, its wait being over.\<close>

definition resumeSuspended ::
  "RequiredSmartPathOptions \<Rightarrow> 'z SmartPath_scheme PathFSMEvents \<Rightarrow> nat \<Rightarrow> SearchResult
     \<Rightarrow> 'z SmartPath_scheme \<Rightarrow> 'z SmartPath_scheme"
where
  "resumeSuspended smartOptions fsmEvents i res s =
    (if i < length (suspended s)
     then
       let task = suspended s ! i;
           s1 = s\<lparr>suspended := take i (suspended s) @ drop (i + 1) (suspended s)\<rparr>
       in (case task of
             BlockedRecovery \<Rightarrow> handleBlocked_resumed smartOptions fsmEvents res s1
           | FailureRecovery \<Rightarrow> handleFailure_resumed smartOptions fsmEvents res s1)
     else s)"

definition getRetryAttempts :: "'z SmartPath_scheme \<Rightarrow> nat" where
  "getRetryAttempts s = retryAttempts s"

definition getMaxRetries :: "RequiredSmartPathOptions \<Rightarrow> int" where
  "getMaxRetries smartOptions = maxRetries smartOptions"

definition areRetriesExhausted :: "RequiredSmartPathOptions \<Rightarrow> 'z SmartPath_scheme \<Rightarrow> bool" where
  "areRetriesExhausted smartOptions s = (int (retryAttempts s) \<ge> maxRetries smartOptions)"

definition resetRetries :: "'z SmartPath_scheme \<Rightarrow> 'z SmartPath_scheme" where
  "resetRetries s = s\<lparr>retryAttempts := 0\<rparr>"

definition SmartPath_destroy ::
  "RequiredSmartPathOptions \<Rightarrow> 'z SmartPath_scheme PathFSMEvents \<Rightarrow> 'z SmartPath_scheme
     \<Rightarrow> 'z SmartPath_scheme"
where
  "SmartPath_destroy smartOptions fsmEvents s =
    destroy (enhancedEvents smartOptions fsmEvents)
      (s\<lparr>lastStart := None, lastFinish := None, currentHumanoid := None,
         currentWaypointDistance := None, retryAttempts := 0\<rparr>)"

definition newSmartPath :: "PathStatus \<Rightarrow> SmartPath" where
  "newSmartPath initialStatus =
    \<lparr>currentState = Idle, trace = [],
     robloxStatus = initialStatus, robloxWaypoints = [], robloxDestroyed = False,
     currentWaypoints = [], currentWaypointIndex = 0, followConnection = None,
     pathBlockedConnection = True, heartbeat = [], connections = 0,
     retryAttempts = 0, lastStart = None, lastFinish = None, currentHumanoid = None,
     currentWaypointDistance = None, suspended = []\<rparr>"

section \<open>Example data\<close>

text \<open>The three-waypoint path of the specification's examples, and answers of the search service.\<close>

definition p000 :: Vector3 where "p000 = \<lparr>vx = 0, vy = 0, vz = 0\<rparr>"
definition p300 :: Vector3 where "p300 = \<lparr>vx = 3, vy = 0, vz = 0\<rparr>"
definition p340 :: Vector3 where "p340 = \<lparr>vx = 3, vy = 4, vz = 0\<rparr>"

definition threeWaypoints :: "PathWaypoint list" where
  "threeWaypoints =
    [\<lparr>Position = p000, Action = Walk, Label = []\<rparr>,
     \<lparr>Position = p300, Action = Walk, Label = []\<rparr>,
     \<lparr>Position = p340, Action = Jump, Label = []\<rparr>]"

definition found :: SearchResult where
  "found = \<lparr>srStatus = Success, srWaypoints = threeWaypoints\<rparr>"

definition notFound :: "PathStatus \<Rightarrow> SearchResult" where
  "notFound status = \<lparr>srStatus = status, srWaypoints = []\<rparr>"

text \<open>
  A controller with no callbacks that has computed the three-waypoint path and been told
  to follow it with humanoid 1: it is in \<open>Following\<close>, driving waypoint 0.
\<close>

definition followingPath :: Path where
  "followingPath =
    startFollowing (observer noCallbacks) 1 5
      (snd (computeAsync (observer noCallbacks) p000 p340 found (newPath NoPath)))"

text \<open>
  A retrying controller with \<open>maxRetries = 2\<close> and every other option at its default, no
  caller callbacks, and a search service that answers \<open>FailStartNotEmpty\<close> every time.
  \<open>afterRecoveries n\<close> is the controller after the caller's one \<open>computeAsync\<close> and \<open>n\<close>
  resumptions of the suspended recovery.
\<close>

definition budgetTwo :: RequiredSmartPathOptions where
  "budgetTwo = normalizeSmartOptions
     \<lparr>optMaxRetries = Some 2, optRetryDelay = None, optUseExponentialBackoff = None,
      optShouldRetry = None\<rparr>"

definition noSmartCallbacks :: "SmartPath PathFSMEvents" where
  "noSmartCallbacks = observer noCallbacks"

fun afterRecoveries :: "nat \<Rightarrow> SmartPath" where
  "afterRecoveries 0 =
     snd (SmartPath_computeAsync budgetTwo noSmartCallbacks p000 p340
            (notFound FailStartNotEmpty) (newSmartPath NoPath))"
| "afterRecoveries (Suc n) =
     resumeSuspended budgetTwo noSmartCallbacks 0 (notFound FailStartNotEmpty) (afterRecoveries n)"

definition recomputations :: "event list \<Rightarrow> nat" where
  "recomputations es = length (filter (\<lambda>e. case e of SearchComputeAsync a b \<Rightarrow> True | _ \<Rightarrow> False) es)"

text \<open>
  The same controller with a search service that always finds the three-waypoint path.
  \<open>afterBlocks n\<close> has computed, started to follow with humanoid 1, and then \<open>n\<close> times
  been signalled a blockage by the search handle and had the suspended recovery resumed.
\<close>

definition blockedOnce :: "SmartPath \<Rightarrow> SmartPath" where
  "blockedOnce s =
     resumeSuspended budgetTwo noSmartCallbacks 0 found
       (pathBlockedListener (enhancedEvents budgetTwo noSmartCallbacks) s)"

fun afterBlocks :: "nat \<Rightarrow> SmartPath" where
  "afterBlocks 0 =
     SmartPath_startFollowing budgetTwo noSmartCallbacks 1 5
       (snd (SmartPath_computeAsync budgetTwo noSmartCallbacks p000 p340 found
               (newSmartPath NoPath)))"
| "afterBlocks (Suc n) = blockedOnce (afterBlocks n)"

definition thirdBlock :: SmartPath where
  "thirdBlock = pathBlockedListener (enhancedEvents budgetTwo noSmartCallbacks) (afterBlocks 2)"

section \<open>The state machine follows its table\<close>

lemma canTransitionTo_specTable:
  "canTransitionTo T s = (T \<in> specTable (currentState s))"
  by (cases "currentState s"; cases T)
     (simp_all add: canTransitionTo_def validTransitions_def)

lemma transitionTo_accepted:
  "T \<in> specTable (currentState s) \<Longrightarrow>
   transitionTo ev T s =
     (True, case onStateChanged ev of
              Some cb \<Rightarrow> cb (currentState s) T (s\<lparr>currentState := T\<rparr>)
            | None \<Rightarrow> s\<lparr>currentState := T\<rparr>)"
  by (simp add: transitionTo_def canTransitionTo_specTable Let_def)

lemma transitionTo_rejected:
  "T \<notin> specTable (currentState s) \<Longrightarrow>
   transitionTo ev T s = (False, warn (InvalidTransition (currentState s) T) s)"
  by (simp add: transitionTo_def canTransitionTo_specTable)

lemma transitionTo_observer:
  "transitionTo (observer r) T s =
    (if T \<in> specTable (currentState s)
     then (True, if regStateChanged r
                 then s\<lparr>currentState := T, trace := trace s @ [StateChanged (currentState s) T]\<rparr>
                 else s\<lparr>currentState := T\<rparr>)
     else (False, s\<lparr>trace := trace s @ [Warn (InvalidTransition (currentState s) T)]\<rparr>))"
  by (simp add: transitionTo_def canTransitionTo_specTable observer_def emit_def warn_def Let_def)

text \<open>
  Claim C1. From every state \<open>S\<close> and for every target \<open>T\<close>, \<open>canTransitionTo\<close> answers
  whether \<open>T\<close> is in the table entry of \<open>S\<close>. \<open>transitionTo\<close> returns that same answer. When
  it is true, the state becomes \<open>T\<close> and the state-changed callback, if there is one, is
  called with the old and the new state; when it is false, the only effect is a warning:
  the state stays \<open>S\<close> and no callback runs. For a caller observing every notification the
  two outcomes are spelled out in the last conjunct.
\<close>

theorem C1_transitions_follow_table:
  "canTransitionTo T s = (T \<in> specTable (currentState s)) \<and>
   fst (transitionTo ev T s) = (T \<in> specTable (currentState s)) \<and>
   snd (transitionTo ev T s) =
     (if T \<in> specTable (currentState s)
      then (case onStateChanged ev of
              Some cb \<Rightarrow> cb (currentState s) T (s\<lparr>currentState := T\<rparr>)
            | None \<Rightarrow> s\<lparr>currentState := T\<rparr>)
      else s\<lparr>trace := trace s @ [Warn (InvalidTransition (currentState s) T)]\<rparr>) \<and>
   transitionTo (observer allCallbacks) T s =
     (if T \<in> specTable (currentState s)
      then (True, s\<lparr>currentState := T, trace := trace s @ [StateChanged (currentState s) T]\<rparr>)
      else (False, s\<lparr>trace := trace s @ [Warn (InvalidTransition (currentState s) T)]\<rparr>))"
  by (simp add: canTransitionTo_specTable transitionTo_accepted transitionTo_rejected
      transitionTo_observer warn_def emit_def allCallbacks_def)

theorem C1_transitions_follow_table_witness:
  "canTransitionTo Paused (newPath NoPath\<lparr>currentState := Following\<rparr>) \<and>
   transitionTo (observer allCallbacks) Paused (newPath NoPath\<lparr>currentState := Following\<rparr>) =
     (True, newPath NoPath\<lparr>currentState := Paused, trace := [StateChanged Following Paused]\<rparr>) \<and>
   \<not> canTransitionTo Idle (newPath NoPath\<lparr>currentState := Following\<rparr>) \<and>
   transitionTo (observer allCallbacks) Idle (newPath NoPath\<lparr>currentState := Following\<rparr>) =
     (False, newPath NoPath\<lparr>currentState := Following,
        trace := [Warn (InvalidTransition Following Idle)]\<rparr>)"
  using
    C1_transitions_follow_table
      [of Paused "newPath NoPath\<lparr>currentState := Following\<rparr>" "observer allCallbacks"]
    C1_transitions_follow_table
      [of Idle "newPath NoPath\<lparr>currentState := Following\<rparr>" "observer allCallbacks"]
  by (simp add: newPath_def)

section \<open>Triggers and observing callers\<close>

lemma triggerPathCompleted_observer:
  "triggerPathCompleted (observer r) s =
    (let s1 = snd (transitionTo (observer r) Completed s)
     in if regPathCompleted r then s1\<lparr>trace := trace s1 @ [PathCompleted]\<rparr> else s1)"
  by (simp add: triggerPathCompleted_def observer_def emit_def Let_def)

lemma triggerPathFailed_observer:
  "triggerPathFailed (observer r) reason s =
    (let s1 = snd (transitionTo (observer r) Failed s)
     in if regPathFailed r then s1\<lparr>trace := trace s1 @ [PathFailed reason]\<rparr> else s1)"
  by (simp add: triggerPathFailed_def observer_def emit_def Let_def)

lemma triggerPathBlocked_observer:
  "triggerPathBlocked (observer r) s =
    (let s1 = snd (transitionTo (observer r) Blocked s)
     in if regPathBlocked r then s1\<lparr>trace := trace s1 @ [PathBlocked]\<rparr> else s1)"
  by (simp add: triggerPathBlocked_def observer_def emit_def Let_def)

lemma canTransitionTo_Computing: "canTransitionTo Computing s = (currentState s \<noteq> Computing)"
  by (cases "currentState s") (simp_all add: canTransitionTo_specTable)

lemma robloxStatus_ComputeAsync: "robloxStatus (ComputeAsync a b res s) = srStatus res"
  by (simp add: ComputeAsync_def)

text \<open>
  Claim C5, as the code has it. The three triggers call the validated \<open>transitionTo\<close>: the
  machine lands in the named state only from a state whose table entry holds it
  (\<open>Completed\<close> and \<open>Blocked\<close> from \<open>Following\<close>; \<open>Failed\<close> from \<open>Computing\<close>, \<open>Following\<close>,
  \<open>Blocked\<close>, \<open>Paused\<close>) and otherwise stays where it is. The callback of the trigger runs
  afterwards in either case.
\<close>

theorem C5_triggers_are_validated:
  "currentState (triggerPathCompleted (observer r) s) =
     (if currentState s = Following then Completed else currentState s) \<and>
   currentState (triggerPathFailed (observer r) reason s) =
     (if currentState s \<in> {Computing, Following, Blocked, Paused} then Failed else currentState s) \<and>
   currentState (triggerPathBlocked (observer r) s) =
     (if currentState s = Following then Blocked else currentState s) \<and>
   triggerPathCompleted (observer allCallbacks) s =
     (snd (transitionTo (observer allCallbacks) Completed s))
       \<lparr>trace := trace (snd (transitionTo (observer allCallbacks) Completed s)) @ [PathCompleted]\<rparr> \<and>
   triggerPathFailed (observer allCallbacks) reason s =
     (snd (transitionTo (observer allCallbacks) Failed s))
       \<lparr>trace := trace (snd (transitionTo (observer allCallbacks) Failed s)) @ [PathFailed reason]\<rparr> \<and>
   triggerPathBlocked (observer allCallbacks) s =
     (snd (transitionTo (observer allCallbacks) Blocked s))
       \<lparr>trace := trace (snd (transitionTo (observer allCallbacks) Blocked s)) @ [PathBlocked]\<rparr>"
  by (cases "currentState s")
     (simp_all add: triggerPathCompleted_observer triggerPathFailed_observer
        triggerPathBlocked_observer transitionTo_observer allCallbacks_def Let_def)

theorem C5_triggers_are_validated_witness:
  "currentState (triggerPathCompleted (observer allCallbacks) (newPath NoPath\<lparr>currentState := Following\<rparr>))
     = Completed \<and>
   currentState (triggerPathCompleted (observer allCallbacks) (newPath NoPath\<lparr>currentState := Paused\<rparr>))
     = Paused \<and>
   triggerPathFailed (observer allCallbacks) NoPath (newPath NoPath) =
     newPath NoPath\<lparr>trace := [Warn (InvalidTransition Idle Failed), PathFailed NoPath]\<rparr>"
  using
    C5_triggers_are_validated [of allCallbacks "newPath NoPath\<lparr>currentState := Following\<rparr>" NoPath]
    C5_triggers_are_validated [of allCallbacks "newPath NoPath\<lparr>currentState := Paused\<rparr>" NoPath]
    C5_triggers_are_validated [of allCallbacks "newPath NoPath" NoPath]
  by (simp add: newPath_def transitionTo_observer allCallbacks_def)

text \<open>
  Claim C5 as stated fails: \<open>triggerPathFailed\<close> on a machine in \<open>Idle\<close> does not land in
  \<open>Failed\<close>.
\<close>

theorem C5_trigger_from_Idle_counterexample:
  "currentState (triggerPathFailed (observer allCallbacks) NoPath (newPath NoPath)) \<noteq> Failed"
  by (simp add: triggerPathFailed_observer transitionTo_observer newPath_def allCallbacks_def)

section \<open>Following before any computation\<close>

text \<open>
  Claim C6, as the code has it. On a freshly constructed controller \<open>startFollowing\<close> finds
  the waypoint cache empty and calls \<open>triggerPathFailed(NoPath)\<close>; the table has no edge from
  \<open>Idle\<close> to \<open>Failed\<close>, so the transition is refused with a warning and the controller stays
  \<open>Idle\<close>. The failed callback, if registered, is called with \<open>NoPath\<close>. Nothing else
  changes: the cache stays empty and no follow loop is started.
\<close>

theorem C6_startFollowing_fresh:
  "startFollowing (observer r) humanoid d (newPath initialStatus) =
     (newPath initialStatus)
       \<lparr>trace := Warn (InvalidTransition Idle Failed) #
                  (if regPathFailed r then [PathFailed NoPath] else [])\<rparr>"
  by (simp add: startFollowing_def triggerPathFailed_observer transitionTo_observer newPath_def)

theorem C6_startFollowing_fresh_witness:
  "startFollowing (observer allCallbacks) 1 5 (newPath NoPath) =
     \<lparr>currentState = Idle, trace = [Warn (InvalidTransition Idle Failed), PathFailed NoPath],
      robloxStatus = NoPath, robloxWaypoints = [], robloxDestroyed = False,
      currentWaypoints = [], currentWaypointIndex = 0, followConnection = None,
      pathBlockedConnection = True, heartbeat = [], connections = 0\<rparr>"
  using C6_startFollowing_fresh [of allCallbacks 1 5 NoPath]
  by (simp add: newPath_def allCallbacks_def)

text \<open>
  Claim C6 as stated fails: after \<open>startFollowing\<close> on a fresh controller the state is not
  \<open>Failed\<close>.
\<close>

theorem C6_fresh_not_Failed_counterexample:
  "currentState (startFollowing (observer allCallbacks) 1 5 (newPath NoPath)) \<noteq> Failed"
  by (simp add: startFollowing_def triggerPathFailed_observer transitionTo_observer newPath_def
      allCallbacks_def)

section \<open>When computeAsync raises\<close>

text \<open>
  Claim C7. \<open>computeAsync\<close> raises exactly when the transition to \<open>Computing\<close> is refused,
  which is exactly when the controller is already in \<open>Computing\<close>. The raise leaves the
  controller as it was, a warning aside. From every other state the call returns the
  status code the search service reported, whatever the callbacks do.
\<close>

theorem C7_computeAsync_raises_iff_computing:
  "(\<exists>e. fst (computeAsync ev start finish res s) = Inl e) = (\<not> canTransitionTo Computing s) \<and>
   (\<not> canTransitionTo Computing s) = (currentState s = Computing) \<and>
   (if currentState s = Computing
    then computeAsync ev start finish res s =
           (Inl (CannotComputePath Computing),
            s\<lparr>trace := trace s @ [Warn (InvalidTransition Computing Computing)]\<rparr>)
    else fst (computeAsync ev start finish res s) = Inr (srStatus res))"
  by (auto simp add: computeAsync_def transitionTo_def canTransitionTo_Computing getState_def
      getCurrentState_def robloxStatus_ComputeAsync warn_def emit_def Let_def split: prod.splits)

theorem C7_computeAsync_raises_iff_computing_witness:
  "computeAsync (observer allCallbacks) \<lparr>vx = 0, vy = 0, vz = 0\<rparr> \<lparr>vx = 3, vy = 0, vz = 0\<rparr>
      \<lparr>srStatus = Success, srWaypoints = []\<rparr> (newPath NoPath\<lparr>currentState := Computing\<rparr>) =
     (Inl (CannotComputePath Computing),
      newPath NoPath\<lparr>currentState := Computing,
        trace := [Warn (InvalidTransition Computing Computing)]\<rparr>) \<and>
   fst (computeAsync (observer allCallbacks) \<lparr>vx = 0, vy = 0, vz = 0\<rparr> \<lparr>vx = 3, vy = 0, vz = 0\<rparr>
      \<lparr>srStatus = NoPath, srWaypoints = []\<rparr> (newPath NoPath\<lparr>currentState := Paused\<rparr>)) = Inr NoPath"
  using
    C7_computeAsync_raises_iff_computing
      [of "observer allCallbacks" "\<lparr>vx = 0, vy = 0, vz = 0\<rparr>" "\<lparr>vx = 3, vy = 0, vz = 0\<rparr>"
          "\<lparr>srStatus = Success, srWaypoints = []\<rparr>" "newPath NoPath\<lparr>currentState := Computing\<rparr>"]
    C7_computeAsync_raises_iff_computing
      [of "observer allCallbacks" "\<lparr>vx = 0, vy = 0, vz = 0\<rparr>" "\<lparr>vx = 3, vy = 0, vz = 0\<rparr>"
          "\<lparr>srStatus = NoPath, srWaypoints = []\<rparr>" "newPath NoPath\<lparr>currentState := Paused\<rparr>"]
  by (simp add: newPath_def)

section \<open>The controller on concrete runs\<close>

lemmas path_defs = computeAsync_def startFollowing_def followNextWaypoint_def stop_def
  cleanupConnections_def Disconnect_def HeartbeatConnect_def ComputeAsync_def extractWaypoints_def
  triggerPathFailed_observer triggerPathCompleted_observer triggerPathBlocked_observer
  transitionTo_observer getState_def getCurrentState_def emit_def warn_def Let_def

lemma followingPath_eq:
  "followingPath =
    \<lparr>currentState = Following,
     trace = [SearchComputeAsync p000 p340, HumanoidMoveTo 1 p000],
     robloxStatus = Success, robloxWaypoints = threeWaypoints, robloxDestroyed = False,
     currentWaypoints =
       [\<lparr>position = p000, action = Walk\<rparr>, \<lparr>position = p300, action = Walk\<rparr>,
        \<lparr>position = p340, action = Jump\<rparr>],
     currentWaypointIndex = 0, followConnection = Some 0, pathBlockedConnection = True,
     heartbeat = [(0, \<lparr>fcHumanoid = 1, fcDistance = 5,
                       fcWaypoint = \<lparr>position = p000, action = Walk\<rparr>\<rparr>)],
     connections = 1\<rparr>"
  by (simp add: followingPath_def path_defs newPath_def noCallbacks_def found_def threeWaypoints_def)

section \<open>stop\<close>

text \<open>
  What \<open>stop\<close> does from every state: the tracked tick subscription is cancelled and the
  waypoint index is 0, but the state becomes \<open>Idle\<close> only from \<open>Completed\<close> and \<open>Failed\<close>,
  the two states with an edge to \<open>Idle\<close>.
\<close>

lemma stop_observer:
  "currentState (stop (observer r) s) =
     (if currentState s \<in> {Completed, Failed} then Idle else currentState s) \<and>
   followConnection (stop (observer r) s) = None \<and>
   currentWaypointIndex (stop (observer r) s) = 0"
  by (cases "currentState s"; cases "followConnection s")
     (simp_all add: stop_def cleanupConnections_def Disconnect_def transitionTo_observer Let_def)

text \<open>
  Claim C2 does not hold of the code. A controller that is following the three-waypoint
  path is stopped: the subscription is cancelled and the index is 0, yet the transition to
  \<open>Idle\<close> is refused with a warning and the controller is still in \<open>Following\<close>.
\<close>

theorem C2_stop_from_Following:
  "currentState followingPath = Following \<and>
   stop (observer noCallbacks) followingPath =
     followingPath
       \<lparr>trace := trace followingPath @ [Warn (InvalidTransition Following Idle)],
        followConnection := None, heartbeat := []\<rparr> \<and>
   currentState (stop (observer noCallbacks) followingPath) = Following \<and>
   currentWaypointIndex (stop (observer noCallbacks) followingPath) = 0"
  by (simp add: followingPath_eq path_defs noCallbacks_def)

section \<open>The retry budget\<close>

lemmas smart_defs = SmartPath_computeAsync_def computeAsync_def enhancedEvents_def handleFailure_def
  handleBlocked_def waitForRetry_def retryDelayOf_def shouldAttemptRetry_def
  resumeSuspended_def handleFailure_resumed_def triggerPathFailed_def transitionTo_def
  canTransitionTo_specTable ComputeAsync_def getState_def getCurrentState_def emit_def warn_def Let_def

lemma budgetTwo_simps:
  "maxRetries budgetTwo = 2" "retryDelay budgetTwo = 1" "useExponentialBackoff budgetTwo"
  "shouldRetry budgetTwo = defaultShouldRetry 2"
  by (simp_all add: budgetTwo_def normalizeSmartOptions_def)

text \<open>
  Every recomputation goes through the overriding \<open>computeAsync\<close>, which sets \<open>retryAttempts\<close>
  back to 0 before the failure of that recomputation counts it up to 1 again: however many
  recoveries have run, one more is waiting.
\<close>

lemma afterRecoveries_invariant:
  "currentState (afterRecoveries n) = Failed \<and>
   lastStart (afterRecoveries n) = Some p000 \<and> lastFinish (afterRecoveries n) = Some p340 \<and>
   retryAttempts (afterRecoveries n) = 1 \<and>
   suspended (afterRecoveries n) = [FailureRecovery] \<and>
   recomputations (trace (afterRecoveries n)) = n + 1"
proof (induction n)
  case 0
  show ?case
    by (simp add: smart_defs budgetTwo_simps defaultShouldRetry_def noSmartCallbacks_def
        observer_def noCallbacks_def notFound_def newSmartPath_def recomputations_def)
next
  case (Suc n)
  then show ?case
    by (simp add: smart_defs budgetTwo_simps defaultShouldRetry_def noSmartCallbacks_def
        observer_def noCallbacks_def notFound_def recomputations_def)
qed

text \<open>
  Claim C3 does not hold of the code. With \<open>maxRetries = 2\<close>, after two recoveries from
  failed computations the counter stands at 1, the budget is not reported exhausted, a
  third recovery is waiting, and resuming it calls the search service a fourth time. After
  two recoveries from blockages the counter stands at 0, and a third blockage starts a
  third recovery, which recomputes as well.
\<close>

theorem C3_retry_budget_not_enforced:
  "retryAttempts (afterRecoveries 2) = 1 \<and>
   suspended (afterRecoveries 2) = [FailureRecovery] \<and>
   \<not> areRetriesExhausted budgetTwo (afterRecoveries 2) \<and>
   recomputations (trace (afterRecoveries 2)) = 3 \<and>
   recomputations (trace (afterRecoveries 3)) = 4 \<and>
   retryAttempts (afterBlocks 2) = 0 \<and>
   recomputations (trace (afterBlocks 2)) = 3 \<and>
   retryAttempts thirdBlock = 1 \<and>
   suspended thirdBlock = [BlockedRecovery] \<and>
   \<not> areRetriesExhausted budgetTwo thirdBlock \<and>
   recomputations (trace (afterBlocks 3)) = 4"
proof -
  have failures:
    "retryAttempts (afterRecoveries 2) = 1 \<and>
     suspended (afterRecoveries 2) = [FailureRecovery] \<and>
     \<not> areRetriesExhausted budgetTwo (afterRecoveries 2) \<and>
     recomputations (trace (afterRecoveries 2)) = 3 \<and>
     recomputations (trace (afterRecoveries 3)) = 4"
    using afterRecoveries_invariant [of 2] afterRecoveries_invariant [of 3]
    by (simp add: areRetriesExhausted_def budgetTwo_simps)
  have blocks:
    "retryAttempts (afterBlocks 2) = 0 \<and>
     recomputations (trace (afterBlocks 2)) = 3 \<and>
     retryAttempts thirdBlock = 1 \<and>
     suspended thirdBlock = [BlockedRecovery] \<and>
     \<not> areRetriesExhausted budgetTwo thirdBlock \<and>
     recomputations (trace (afterBlocks 3)) = 4"
    by code_simp
  from failures blocks show ?thesis by blast
qed

section \<open>A computation that does not succeed\<close>

lemma computeAsync_failed_observer:
  "currentState s \<noteq> Computing \<Longrightarrow> srStatus res \<noteq> Success \<Longrightarrow>
   computeAsync (observer r) start finish res s =
     (Inr (srStatus res),
      s\<lparr>currentState := Failed,
        trace := trace s @ (if regStateChanged r then [StateChanged (currentState s) Computing] else [])
          @ [SearchComputeAsync start finish]
          @ (if regStateChanged r then [StateChanged Computing Failed] else [])
          @ (if regPathFailed r then [PathFailed (srStatus res)] else []),
        robloxStatus := srStatus res, robloxWaypoints := srWaypoints res\<rparr>)"
  by (cases "currentState s"; simp add: path_defs)

lemma computeAsync_failed_trigger:
  "currentState s \<noteq> Computing \<Longrightarrow> srStatus res \<noteq> Success \<Longrightarrow>
   snd (computeAsync ev start finish res s) =
     triggerPathFailed ev (srStatus res)
       (ComputeAsync start finish res (snd (transitionTo ev Computing s)))"
  by (simp add: computeAsync_def transitionTo_def canTransitionTo_Computing robloxStatus_ComputeAsync
      Let_def split: prod.splits)

lemma computeAsync_status:
  "currentState s \<noteq> Computing \<Longrightarrow> fst (computeAsync ev start finish res s) = Inr (srStatus res)"
  by (simp add: computeAsync_def transitionTo_def canTransitionTo_Computing robloxStatus_ComputeAsync
      Let_def split: prod.splits)

text \<open>
  Claim C4, as the code has it. A call that is accepted (the controller is not already in
  \<open>Computing\<close>) always returns the status code of the search service. When that code is not
  \<open>Success\<close>, the controller calls \<open>triggerPathFailed\<close> with it and ends in \<open>Failed\<close>, and
  the waypoint cache is what it was before the call: nothing clears it. If it was empty
  it stays empty, and a following \<open>startFollowing\<close> takes the no-waypoints branch.
\<close>

theorem C4_failed_computation_keeps_cache:
  "currentState s \<noteq> Computing \<Longrightarrow>
   fst (computeAsync (observer r) start finish res s) = Inr (srStatus res) \<and>
   (srStatus res \<noteq> Success \<longrightarrow>
      triggerPathFailed (observer r) (srStatus res)
          (ComputeAsync start finish res (snd (transitionTo (observer r) Computing s))) =
        snd (computeAsync (observer r) start finish res s) \<and>
      currentState (snd (computeAsync (observer r) start finish res s)) = Failed \<and>
      currentWaypoints (snd (computeAsync (observer r) start finish res s)) = currentWaypoints s \<and>
      trace (snd (computeAsync (observer r) start finish res s)) =
        trace s @ (if regStateChanged r then [StateChanged (currentState s) Computing] else [])
          @ [SearchComputeAsync start finish]
          @ (if regStateChanged r then [StateChanged Computing Failed] else [])
          @ (if regPathFailed r then [PathFailed (srStatus res)] else []) \<and>
      (currentWaypoints s = [] \<longrightarrow>
         startFollowing (observer r) h d (snd (computeAsync (observer r) start finish res s)) =
           triggerPathFailed (observer r) NoPath
             (snd (computeAsync (observer r) start finish res s))))"
proof (intro conjI impI)
  assume a: "currentState s \<noteq> Computing"
  show "fst (computeAsync (observer r) start finish res s) = Inr (srStatus res)"
    using a by (rule computeAsync_status)
next
  assume a: "currentState s \<noteq> Computing" and b: "srStatus res \<noteq> Success"
  show "triggerPathFailed (observer r) (srStatus res)
          (ComputeAsync start finish res (snd (transitionTo (observer r) Computing s))) =
        snd (computeAsync (observer r) start finish res s)"
    using a b by (rule computeAsync_failed_trigger [symmetric])
  show "currentState (snd (computeAsync (observer r) start finish res s)) = Failed"
    by (simp add: computeAsync_failed_observer [OF a b])
  show "currentWaypoints (snd (computeAsync (observer r) start finish res s)) = currentWaypoints s"
    by (simp add: computeAsync_failed_observer [OF a b])
  show "trace (snd (computeAsync (observer r) start finish res s)) =
        trace s @ (if regStateChanged r then [StateChanged (currentState s) Computing] else [])
          @ [SearchComputeAsync start finish]
          @ (if regStateChanged r then [StateChanged Computing Failed] else [])
          @ (if regPathFailed r then [PathFailed (srStatus res)] else [])"
    by (simp add: computeAsync_failed_observer [OF a b])
  assume c: "currentWaypoints s = []"
  show "startFollowing (observer r) h d (snd (computeAsync (observer r) start finish res s)) =
           triggerPathFailed (observer r) NoPath
             (snd (computeAsync (observer r) start finish res s))"
    by (simp add: computeAsync_failed_observer [OF a b] startFollowing_def c)
qed

theorem C4_failed_computation_keeps_cache_witness:
  "fst (computeAsync (observer allCallbacks) p000 p340 (notFound NoPath) (newPath NoPath)) = Inr NoPath \<and>
   currentState (snd (computeAsync (observer allCallbacks) p000 p340 (notFound NoPath) (newPath NoPath))) = Failed \<and>
   currentWaypoints (snd (computeAsync (observer allCallbacks) p000 p340 (notFound NoPath) (newPath NoPath))) = [] \<and>
   trace (snd (computeAsync (observer allCallbacks) p000 p340 (notFound NoPath) (newPath NoPath))) =
     [StateChanged Idle Computing, SearchComputeAsync p000 p340, StateChanged Computing Failed, PathFailed NoPath]"
proof -
  have a: "currentState (newPath NoPath) \<noteq> Computing" by (simp add: newPath_def)
  have b: "srStatus (notFound NoPath) \<noteq> Success" by (simp add: notFound_def)
  have c: "currentState (newPath NoPath) = Idle" "trace (newPath NoPath) = []"
    "currentWaypoints (newPath NoPath) = []" "regStateChanged allCallbacks" "regPathFailed allCallbacks"
    "srStatus (notFound NoPath) = NoPath"
    by (simp_all add: newPath_def allCallbacks_def notFound_def)
  from C4_failed_computation_keeps_cache [OF a, of allCallbacks p000 p340 "notFound NoPath"] b c
  show ?thesis by simp
qed

text \<open>
  Claim C4 as stated fails: a controller that is following a computed path and recomputes
  with outcome \<open>NoPath\<close> still holds the three waypoints of the earlier computation.
\<close>

theorem C4_stale_cache_counterexample:
  "currentWaypoints
     (snd (computeAsync (observer noCallbacks) p000 p340 (notFound NoPath) followingPath)) \<noteq> []"
  by (simp add: followingPath_eq path_defs noCallbacks_def notFound_def)

section \<open>The backoff delay\<close>

lemma handleBlocked_attempted:
  "shouldAttemptRetry smartOptions s \<Longrightarrow>
   handleBlocked smartOptions s =
     s\<lparr>trace := trace s @ [TaskWait (retryDelay smartOptions *
            (if useExponentialBackoff smartOptions then 2 ^ retryAttempts s else 1))],
       retryAttempts := retryAttempts s + 1,
       suspended := suspended s @ [BlockedRecovery]\<rparr>"
  by (simp add: handleBlocked_def waitForRetry_def retryDelayOf_def emit_def Let_def)

lemma handleFailure_attempted:
  "shouldRetry smartOptions reason (retryAttempts s) \<Longrightarrow> shouldAttemptRetry smartOptions s \<Longrightarrow>
   handleFailure smartOptions reason s =
     s\<lparr>trace := trace s @ [TaskWait (retryDelay smartOptions *
            (if useExponentialBackoff smartOptions then 2 ^ retryAttempts s else 1))],
       retryAttempts := retryAttempts s + 1,
       suspended := suspended s @ [FailureRecovery]\<rparr>"
  by (simp add: handleFailure_def waitForRetry_def retryDelayOf_def emit_def Let_def)


lemma retryDelayOf_pos:
  "retryAttempts s \<ge> 1 \<Longrightarrow> retryDelayOf smartOptions s =
        retryDelay smartOptions *
          (if useExponentialBackoff smartOptions then 2 ^ (retryAttempts s - 1) else 1)"
proof -
  assume "retryAttempts s \<ge> 1"
  then obtain k where k: "retryAttempts s = Suc k" by (cases "retryAttempts s") auto
  show ?thesis by (simp add: retryDelayOf_def k)
qed

text \<open>
  Claim C8. The delay handed to the wait is \<open>retryDelay\<close> times \<open>2^(retryAttempts - 1)\<close> with
  exponential backoff and \<open>retryDelay\<close> itself without, \<open>retryAttempts\<close> being the counter
  as the wait finds it. Both recovery handlers count the attempt before they wait, so the
  counter is at least 1 there and the exponent is the count after incrementing, less one.
  With \<open>retryDelay = 1\<close> and exponential backoff the waits at counts 1, 2, 3 are 1, 2, 4.
\<close>

theorem C8_backoff_delay:
  "retryDelayOf smartOptions s =
     retryDelay smartOptions *
       (if useExponentialBackoff smartOptions then 2 powi (int (retryAttempts s) - 1) else 1) \<and>
   (retryAttempts s \<ge> 1 \<longrightarrow>
      retryDelayOf smartOptions s =
        retryDelay smartOptions *
          (if useExponentialBackoff smartOptions then 2 ^ (retryAttempts s - 1) else 1)) \<and>
   (shouldAttemptRetry smartOptions s \<longrightarrow>
      retryAttempts (handleBlocked smartOptions s) = retryAttempts s + 1 \<and>
      trace (handleBlocked smartOptions s) =
        trace s @ [TaskWait (retryDelay smartOptions *
          (if useExponentialBackoff smartOptions
           then 2 ^ (retryAttempts (handleBlocked smartOptions s) - 1) else 1))]) \<and>
   (shouldRetry smartOptions reason (retryAttempts s) \<and> shouldAttemptRetry smartOptions s \<longrightarrow>
      retryAttempts (handleFailure smartOptions reason s) = retryAttempts s + 1 \<and>
      trace (handleFailure smartOptions reason s) =
        trace s @ [TaskWait (retryDelay smartOptions *
          (if useExponentialBackoff smartOptions
           then 2 ^ (retryAttempts (handleFailure smartOptions reason s) - 1) else 1))]) \<and>
   (retryDelay smartOptions = 1 \<and> useExponentialBackoff smartOptions \<longrightarrow>
      retryDelayOf smartOptions (s\<lparr>retryAttempts := 1\<rparr>) = 1 \<and>
      retryDelayOf smartOptions (s\<lparr>retryAttempts := 2\<rparr>) = 2 \<and>
      retryDelayOf smartOptions (s\<lparr>retryAttempts := 3\<rparr>) = 4)"
proof (intro conjI impI)
  show "retryDelayOf smartOptions s =
     retryDelay smartOptions *
       (if useExponentialBackoff smartOptions then 2 powi (int (retryAttempts s) - 1) else 1)"
    by (simp add: retryDelayOf_def)
next
  assume "retryAttempts s \<ge> 1"
  then show "retryDelayOf smartOptions s =
        retryDelay smartOptions *
          (if useExponentialBackoff smartOptions then 2 ^ (retryAttempts s - 1) else 1)"
    by (rule retryDelayOf_pos)
next
  assume a: "shouldAttemptRetry smartOptions s"
  show "retryAttempts (handleBlocked smartOptions s) = retryAttempts s + 1"
    by (simp add: handleBlocked_attempted [OF a])
  show "trace (handleBlocked smartOptions s) =
        trace s @ [TaskWait (retryDelay smartOptions *
          (if useExponentialBackoff smartOptions
           then 2 ^ (retryAttempts (handleBlocked smartOptions s) - 1) else 1))]"
    by (simp add: handleBlocked_attempted [OF a])
next
  assume "shouldRetry smartOptions reason (retryAttempts s) \<and> shouldAttemptRetry smartOptions s"
  then have a: "shouldRetry smartOptions reason (retryAttempts s)"
    and b: "shouldAttemptRetry smartOptions s" by simp_all
  show "retryAttempts (handleFailure smartOptions reason s) = retryAttempts s + 1"
    by (simp add: handleFailure_attempted [OF a b])
  show "trace (handleFailure smartOptions reason s) =
        trace s @ [TaskWait (retryDelay smartOptions *
          (if useExponentialBackoff smartOptions
           then 2 ^ (retryAttempts (handleFailure smartOptions reason s) - 1) else 1))]"
    by (simp add: handleFailure_attempted [OF a b])
next
  assume "retryDelay smartOptions = 1 \<and> useExponentialBackoff smartOptions"
  then show "retryDelayOf smartOptions (s\<lparr>retryAttempts := 1\<rparr>) = 1"
    and "retryDelayOf smartOptions (s\<lparr>retryAttempts := 2\<rparr>) = 2"
    and "retryDelayOf smartOptions (s\<lparr>retryAttempts := 3\<rparr>) = 4"
    by (simp_all add: retryDelayOf_def)
qed


theorem C8_backoff_delay_witness:
  "retryDelayOf budgetTwo (newSmartPath NoPath\<lparr>retryAttempts := 1\<rparr>) = 1 \<and>
   retryDelayOf budgetTwo (newSmartPath NoPath\<lparr>retryAttempts := 2\<rparr>) = 2 \<and>
   retryDelayOf budgetTwo (newSmartPath NoPath\<lparr>retryAttempts := 3\<rparr>) = 4 \<and>
   trace (handleBlocked budgetTwo (newSmartPath NoPath\<lparr>retryAttempts := 1\<rparr>)) = [TaskWait 2] \<and>
   trace (handleFailure budgetTwo ClosestNoPath (newSmartPath NoPath)) = [TaskWait 1]"
proof -
  let ?s0 = "newSmartPath NoPath"
  let ?s1 = "newSmartPath NoPath\<lparr>retryAttempts := 1\<rparr>"
  have a: "retryDelay budgetTwo = 1 \<and> useExponentialBackoff budgetTwo"
    by (simp add: budgetTwo_simps)
  have b: "shouldAttemptRetry budgetTwo ?s1"
    by (simp add: shouldAttemptRetry_def budgetTwo_simps)
  have c: "shouldRetry budgetTwo ClosestNoPath (retryAttempts ?s0) \<and> shouldAttemptRetry budgetTwo ?s0"
    by (simp add: shouldAttemptRetry_def budgetTwo_simps defaultShouldRetry_def newSmartPath_def)
  have d: "retryAttempts ?s0 = 0" "trace ?s0 = []" "trace ?s1 = []" "retryAttempts ?s1 = 1"
    by (simp_all add: newSmartPath_def)
  note T0 = C8_backoff_delay [of budgetTwo ?s0 ClosestNoPath]
  note T1 = C8_backoff_delay [of budgetTwo ?s1 ClosestNoPath]
  have delays: "retryDelayOf budgetTwo (?s0\<lparr>retryAttempts := 1\<rparr>) = 1 \<and>
      retryDelayOf budgetTwo (?s0\<lparr>retryAttempts := 2\<rparr>) = 2 \<and>
      retryDelayOf budgetTwo (?s0\<lparr>retryAttempts := 3\<rparr>) = 4"
    using T0 a by blast
  have blocked: "trace (handleBlocked budgetTwo ?s1) =
        trace ?s1 @ [TaskWait (retryDelay budgetTwo *
          (if useExponentialBackoff budgetTwo
           then 2 ^ (retryAttempts (handleBlocked budgetTwo ?s1) - 1) else 1))]"
    and blocked_n: "retryAttempts (handleBlocked budgetTwo ?s1) = retryAttempts ?s1 + 1"
    using T1 b by blast+
  have failed: "trace (handleFailure budgetTwo ClosestNoPath ?s0) =
        trace ?s0 @ [TaskWait (retryDelay budgetTwo *
          (if useExponentialBackoff budgetTwo
           then 2 ^ (retryAttempts (handleFailure budgetTwo ClosestNoPath ?s0) - 1) else 1))]"
    and failed_n: "retryAttempts (handleFailure budgetTwo ClosestNoPath ?s0) = retryAttempts ?s0 + 1"
    using T0 c by blast+
  have w2: "trace (handleBlocked budgetTwo ?s1) = [TaskWait 2]"
    unfolding blocked blocked_n by (simp add: d budgetTwo_simps)
  have w1: "trace (handleFailure budgetTwo ClosestNoPath ?s0) = [TaskWait 1]"
    unfolding failed failed_n by (simp add: d budgetTwo_simps)
  show ?thesis
    using delays w1 w2 by blast
qed

section \<open>The length of the path\<close>

declare getDistance_loop.simps [simp del]

lemma sqrt_9: "sqrt 9 = 3"
  by (rule real_sqrt_unique) simp_all

lemma sqrt_16: "sqrt 16 = 4"
  by (rule real_sqrt_unique) simp_all

lemma Magnitude_sub: "Magnitude (sub p q) = euclidean p q"
  by (simp add: Magnitude_def sub_def euclidean_def power2_eq_square)

lemma getDistance_loop_eq:
  "getDistance_loop wps i t = t + consecutiveDistances (map position (drop i wps))"
proof (induction wps i t rule: getDistance_loop.induct)
  case (1 wps i t)
  show ?case
  proof (cases "int i < int (length wps) - 1")
    case True
    then have lt: "i < length wps" "Suc i < length wps" by auto
    then have "drop i wps = wps ! i # wps ! Suc i # drop (Suc (Suc i)) wps"
      by (simp add: Cons_nth_drop_Suc)
    moreover have "drop (Suc i) wps = wps ! Suc i # drop (Suc (Suc i)) wps"
      using lt by (simp add: Cons_nth_drop_Suc)
    ultimately show ?thesis
      using True "1.IH" [OF True]
      by (subst getDistance_loop.simps) (simp add: Magnitude_sub)
  next
    case False
    then have "drop i wps = [] \<or> (\<exists>w. drop i wps = [w])"
      by (cases "drop i wps"; cases "tl (drop i wps)") (auto simp: drop_Cons' dest!: arg_cong[where f=length])
    then show ?thesis
      using False by (subst getDistance_loop.simps) auto
  qed
qed

lemma computeAsync_found:
  "computeAsync (observer r) start finish found (newPath initialStatus) =
    (Inr Success,
     (newPath initialStatus)
       \<lparr>currentState := Computing,
        trace := (if regStateChanged r then [StateChanged Idle Computing] else [])
                  @ [SearchComputeAsync start finish],
        robloxStatus := Success, robloxWaypoints := threeWaypoints,
        currentWaypoints :=
          [\<lparr>position = p000, action = Walk\<rparr>, \<lparr>position = p300, action = Walk\<rparr>,
           \<lparr>position = p340, action = Jump\<rparr>]\<rparr>)"
  by (simp add: path_defs newPath_def found_def threeWaypoints_def)

text \<open>
  Claim C9. When the search handle reports \<open>Success\<close>, \<open>getDistance\<close> is the sum of the
  Euclidean distances between consecutive cached waypoints; when it reports anything else,
  or the cache is empty, it is exactly 0. After a successful computation of the path
  through (0,0,0), (3,0,0), (3,4,0) it is 7.
\<close>

theorem C9_getDistance:
  "getDistance s =
     (if robloxStatus s = Success then consecutiveDistances (map position (currentWaypoints s)) else 0) \<and>
   (robloxStatus s \<noteq> Success \<or> currentWaypoints s = [] \<longrightarrow> getDistance s = 0) \<and>
   getDistance (snd (computeAsync (observer r) start finish found (newPath initialStatus))) = 7"
proof (intro conjI)
  show "getDistance s =
     (if robloxStatus s = Success then consecutiveDistances (map position (currentWaypoints s)) else 0)"
    by (simp add: getDistance_def getDistance_loop_eq)
  show "robloxStatus s \<noteq> Success \<or> currentWaypoints s = [] \<longrightarrow> getDistance s = 0"
    by (auto simp add: getDistance_def)
  show "getDistance (snd (computeAsync (observer r) start finish found (newPath initialStatus))) = 7"
    by (simp add: computeAsync_found getDistance_def getDistance_loop_eq
        euclidean_def p000_def p300_def p340_def sqrt_9 sqrt_16)
qed

theorem C9_getDistance_witness:
  "getDistance (snd (computeAsync (observer noCallbacks) p000 p340 found (newPath NoPath))) = 7 \<and>
   getDistance (newPath Success) = 0 \<and>
   getDistance (snd (computeAsync (observer noCallbacks) p000 p340 (notFound NoPath) followingPath)) = 0"
proof -
  let ?stale = "snd (computeAsync (observer noCallbacks) p000 p340 (notFound NoPath) followingPath)"
  have a: "currentWaypoints (newPath Success) = []"
    by (simp add: newPath_def)
  have "currentState followingPath \<noteq> Computing" "srStatus (notFound NoPath) \<noteq> Success"
    by (simp_all add: followingPath_eq notFound_def)
  then have b: "robloxStatus ?stale \<noteq> Success"
    by (simp add: computeAsync_failed_observer)
  show ?thesis
    using C9_getDistance [of "newPath Success" noCallbacks p000 p340 NoPath]
          C9_getDistance [of ?stale noCallbacks p000 p340 NoPath] a b
    by blast
qed

section \<open>resume\<close>

lemma followNextWaypoint_index:
  "currentWaypointIndex (followNextWaypoint (observer r) h d s) = currentWaypointIndex s"
  by (cases "followConnection s"; cases "Completed \<in> specTable (currentState s)")
     (simp_all add: path_defs split: prod.splits)

text \<open>
  Claim C10. \<open>resume\<close> is accepted exactly from \<open>Paused\<close>, \<open>Blocked\<close> and \<open>Computing\<close>, the
  states whose table entry holds \<open>Following\<close>. Then the machine enters \<open>Following\<close> and the
  follow loop goes on at the waypoint index it finds, which \<open>resume\<close> never changes: with
  a waypoint left at that index a new tick subscription drives it and the state is
  \<open>Following\<close>; with none left the loop completes the path at once. From every other
  state the only effect is a warning.
\<close>

theorem C10_resume:
  "(currentState s \<in> {Paused, Blocked, Computing}) = canTransitionTo Following s \<and>
   resume (observer r) h d s =
     (if currentState s \<in> {Paused, Blocked, Computing}
      then followNextWaypoint (observer r) h d
             (if regStateChanged r
              then s\<lparr>currentState := Following,
                     trace := trace s @ [StateChanged (currentState s) Following]\<rparr>
              else s\<lparr>currentState := Following\<rparr>)
      else s\<lparr>trace := trace s @ [Warn (InvalidTransition (currentState s) Following)]\<rparr>) \<and>
   currentWaypointIndex (resume (observer r) h d s) = currentWaypointIndex s \<and>
   (currentState s \<in> {Paused, Blocked, Computing} \<and>
    currentWaypointIndex s < length (currentWaypoints s) \<longrightarrow>
      currentState (resume (observer r) h d s) = Following \<and>
      followConnection (resume (observer r) h d s) = Some (connections s) \<and>
      heartbeat (resume (observer r) h d s) =
        heartbeat s @
          [(connections s,
            \<lparr>fcHumanoid = h, fcDistance = d,
             fcWaypoint = currentWaypoints s ! currentWaypointIndex s\<rparr>)]) \<and>
   (currentState s \<in> {Paused, Blocked, Computing} \<and>
    currentWaypointIndex s \<ge> length (currentWaypoints s) \<longrightarrow>
      currentState (resume (observer r) h d s) = Completed)"
proof (intro conjI)
  show "(currentState s \<in> {Paused, Blocked, Computing}) = canTransitionTo Following s"
    by (cases "currentState s") (simp_all add: canTransitionTo_specTable)
  show "resume (observer r) h d s =
     (if currentState s \<in> {Paused, Blocked, Computing}
      then followNextWaypoint (observer r) h d
             (if regStateChanged r
              then s\<lparr>currentState := Following,
                     trace := trace s @ [StateChanged (currentState s) Following]\<rparr>
              else s\<lparr>currentState := Following\<rparr>)
      else s\<lparr>trace := trace s @ [Warn (InvalidTransition (currentState s) Following)]\<rparr>)"
    by (cases "currentState s") (simp_all add: resume_def transitionTo_observer)
  show "currentWaypointIndex (resume (observer r) h d s) = currentWaypointIndex s"
    by (cases "currentState s")
       (simp_all add: resume_def transitionTo_observer followNextWaypoint_index)
  show "currentState s \<in> {Paused, Blocked, Computing} \<and>
    currentWaypointIndex s < length (currentWaypoints s) \<longrightarrow>
      currentState (resume (observer r) h d s) = Following \<and>
      followConnection (resume (observer r) h d s) = Some (connections s) \<and>
      heartbeat (resume (observer r) h d s) =
        heartbeat s @
          [(connections s,
            \<lparr>fcHumanoid = h, fcDistance = d,
             fcWaypoint = currentWaypoints s ! currentWaypointIndex s\<rparr>)]"
    by (cases "currentState s") (simp_all add: resume_def path_defs)
  show "currentState s \<in> {Paused, Blocked, Computing} \<and>
    currentWaypointIndex s \<ge> length (currentWaypoints s) \<longrightarrow>
      currentState (resume (observer r) h d s) = Completed"
    by (cases "currentState s"; cases "followConnection s") (simp_all add: resume_def path_defs)
qed

lemma pausedPath_eq:
  "pause (observer noCallbacks) followingPath =
     followingPath\<lparr>currentState := Paused, followConnection := None, heartbeat := []\<rparr>"
  by (simp add: pause_def followingPath_eq path_defs noCallbacks_def)

theorem C10_resume_witness:
  "currentState (pause (observer noCallbacks) followingPath) = Paused \<and>
   currentState (resume (observer noCallbacks) 1 5 (pause (observer noCallbacks) followingPath)) = Following \<and>
   currentWaypointIndex (resume (observer noCallbacks) 1 5 (pause (observer noCallbacks) followingPath)) =
     currentWaypointIndex followingPath \<and>
   followConnection (resume (observer noCallbacks) 1 5 (pause (observer noCallbacks) followingPath)) = Some 1 \<and>
   resume (observer noCallbacks) 1 5 (newPath NoPath) =
     newPath NoPath\<lparr>trace := [Warn (InvalidTransition Idle Following)]\<rparr>"
proof -
  let ?p = "pause (observer noCallbacks) followingPath"
  have a: "currentState ?p = Paused" "currentWaypointIndex ?p = 0" "connections ?p = 1"
    "length (currentWaypoints ?p) = 3" "currentWaypointIndex followingPath = 0"
    unfolding pausedPath_eq by (simp_all add: followingPath_eq)
  have b: "currentState (newPath NoPath) = Idle" "trace (newPath NoPath) = []"
    by (simp_all add: newPath_def)
  note T = C10_resume [of ?p noCallbacks 1 5]
  note U = C10_resume [of "newPath NoPath" noCallbacks 1 5]
  have pre: "currentState ?p \<in> {Paused, Blocked, Computing} \<and>
      currentWaypointIndex ?p < length (currentWaypoints ?p)"
    by (simp add: a)
  from T pre have r1: "currentState (resume (observer noCallbacks) 1 5 ?p) = Following"
    and r2: "followConnection (resume (observer noCallbacks) 1 5 ?p) = Some (connections ?p)"
    by blast+
  from T have r3: "currentWaypointIndex (resume (observer noCallbacks) 1 5 ?p) = currentWaypointIndex ?p"
    by blast
  from U have "resume (observer noCallbacks) 1 5 (newPath NoPath) =
     (if currentState (newPath NoPath) \<in> {Paused, Blocked, Computing}
      then followNextWaypoint (observer noCallbacks) 1 5
             (if regStateChanged noCallbacks
              then (newPath NoPath)\<lparr>currentState := Following,
                     trace := trace (newPath NoPath) @ [StateChanged (currentState (newPath NoPath)) Following]\<rparr>
              else (newPath NoPath)\<lparr>currentState := Following\<rparr>)
      else (newPath NoPath)\<lparr>trace := trace (newPath NoPath) @
             [Warn (InvalidTransition (currentState (newPath NoPath)) Following)]\<rparr>)"
    by blast
  then have r4: "resume (observer noCallbacks) 1 5 (newPath NoPath) =
     newPath NoPath\<lparr>trace := [Warn (InvalidTransition Idle Following)]\<rparr>"
    by (simp add: b)
  show ?thesis
    using r1 r2 r3 r4 by (simp add: a)
qed

end
